theory Spec2Isabelle
  imports Main
begin

section \<open>The ONNX graph data model\<close>

text \<open>
  The notebook \<^verbatim>\<open>Basics/0_how_to_work_with_onnx_.ipynb\<close> builds an ONNX graph with
  \<^verbatim>\<open>onnx.helper.make_node\<close>, \<^verbatim>\<open>make_tensor_value_info\<close> and \<^verbatim>\<open>make_graph\<close>. A node carries
  an operator type, the ordered names of its input and output tensors, and a name (the
  message fields \<^verbatim>\<open>input\<close> and \<^verbatim>\<open>output\<close> are called \<open>inputs\<close> and \<open>outputs\<close> here, as
  the arguments of \<^verbatim>\<open>make_node\<close> are). A graph carries the ordered node list, its name,
  and the value infos of its inputs, its outputs and its inner tensors. Protobuf
  messages compare by value, so a node is a plain record.
\<close>

datatype TensorProto_DataType = FLOAT

record NodeProto =
  op_type :: string
  inputs :: "string list"
  outputs :: "string list"
  name :: string

record ValueInfoProto =
  vi_name :: string
  elem_type :: TensorProto_DataType
  shape :: "nat list"

record GraphProto =
  node :: "NodeProto list"
  graph_name :: string
  graph_input :: "ValueInfoProto list"
  graph_output :: "ValueInfoProto list"
  value_info :: "ValueInfoProto list"

record ModelProto =
  graph :: GraphProto
  producer_name :: string

text \<open>\<^verbatim>\<open>onnx.helper.make_node(op, inputs=..., outputs=..., name=...)\<close>\<close>

definition make_node :: "string \<Rightarrow> string list \<Rightarrow> string list \<Rightarrow> string \<Rightarrow> NodeProto" where
  "make_node op ins outs nm = \<lparr>op_type = op, inputs = ins, outputs = outs, name = nm\<rparr>"

definition make_tensor_value_info ::
  "string \<Rightarrow> TensorProto_DataType \<Rightarrow> nat list \<Rightarrow> ValueInfoProto" where
  "make_tensor_value_info nm ty shp = \<lparr>vi_name = nm, elem_type = ty, shape = shp\<rparr>"

definition make_graph ::
  "NodeProto list \<Rightarrow> string \<Rightarrow> ValueInfoProto list \<Rightarrow> ValueInfoProto list \<Rightarrow>
   ValueInfoProto list \<Rightarrow> GraphProto" where
  "make_graph nodes nm ins outs vis =
     \<lparr>node = nodes, graph_name = nm, graph_input = ins, graph_output = outs, value_info = vis\<rparr>"

definition qonnx_make_model :: "GraphProto \<Rightarrow> string \<Rightarrow> ModelProto" where
  "qonnx_make_model g pn = \<lparr>graph = g, producer_name = pn\<rparr>"

subsection \<open>The example graph of the notebook\<close>

definition Add1_node :: NodeProto where
  "Add1_node = make_node ''Add'' [''in1'', ''in2''] [''sum1''] ''Add1''"

definition Add2_node :: NodeProto where
  "Add2_node = make_node ''Add'' [''sum1'', ''in3''] [''sum2''] ''Add2''"

definition Add3_node :: NodeProto where
  "Add3_node = make_node ''Add'' [''abs1'', ''abs1''] [''sum3''] ''Add3''"

definition Abs_node :: NodeProto where
  "Abs_node = make_node ''Abs'' [''sum2''] [''abs1''] ''Abs''"

definition Round_node :: NodeProto where
  "Round_node = make_node ''Round'' [''sum3''] [''out1''] ''Round''"

definition in1 :: ValueInfoProto where
  "in1 = make_tensor_value_info ''in1'' FLOAT [4, 4]"

definition in2 :: ValueInfoProto where
  "in2 = make_tensor_value_info ''in2'' FLOAT [4, 4]"

definition in3 :: ValueInfoProto where
  "in3 = make_tensor_value_info ''in3'' FLOAT [4, 4]"

definition out1 :: ValueInfoProto where
  "out1 = make_tensor_value_info ''out1'' FLOAT [4, 4]"

definition simple_graph :: GraphProto where
  "simple_graph =
     make_graph [Add1_node, Add2_node, Abs_node, Add3_node, Round_node] ''simple_graph''
       [in1, in2, in3] [out1]
       [make_tensor_value_info ''sum1'' FLOAT [4, 4],
        make_tensor_value_info ''sum2'' FLOAT [4, 4],
        make_tensor_value_info ''abs1'' FLOAT [4, 4],
        make_tensor_value_info ''sum3'' FLOAT [4, 4]]"

definition onnx_model :: ModelProto where
  "onnx_model = qonnx_make_model simple_graph ''simple-model''"

text \<open>
  \<^verbatim>\<open>finn_model = ModelWrapper(onnx_model)\<close>: the wrapper holds the model and adds helper
  functions; \<^verbatim>\<open>finn_model.graph\<close> is the graph of the wrapped model.
\<close>

type_synonym ModelWrapper = ModelProto

definition finn_model :: ModelWrapper where
  "finn_model = onnx_model"

section \<open>Helper functions of the notebook\<close>

text \<open>
  \<^verbatim>\<open>
  def identify_adder_nodes(model):
      add_nodes = []
      for node in model.graph.node:
          if node.op_type == "Add":
              add_nodes.append(node)
      return add_nodes
  \<close>
  The loop is a fold over the node list whose state is \<^verbatim>\<open>add_nodes\<close>.
\<close>

definition identify_adder_nodes :: "ModelWrapper \<Rightarrow> NodeProto list" where
  "identify_adder_nodes model =
     fold (\<lambda>nd add_nodes. if op_type nd = ''Add'' then add_nodes @ [nd] else add_nodes)
       (node (graph model)) []"

text \<open>
  Modelled from the spec: \<^verbatim>\<open>find_consumers\<close> is a member function of the \<^verbatim>\<open>ModelWrapper\<close>
  class of the QONNX library, which the notebook imports and whose code is not among
  the sources. The graph model's contract reads: all nodes whose input list contains
  the tensor, in graph node order.
\<close>

definition find_consumers :: "ModelWrapper \<Rightarrow> string \<Rightarrow> NodeProto list" where
  "find_consumers model tensor =
     filter (\<lambda>nd. tensor \<in> set (inputs nd)) (node (graph model))"

text \<open>
  Modelled from the spec: \<^verbatim>\<open>find_direct_successors\<close> is a member function of the same
  library class. The contract reads: the union, in port order then node order, of the
  consumers of each of the node's outputs. The outputs are visited in order, and the
  consumers of each one are added in node order unless they are already listed.
\<close>

definition find_direct_successors :: "ModelWrapper \<Rightarrow> NodeProto \<Rightarrow> NodeProto list" where
  "find_direct_successors model nd =
     fold (\<lambda>outp successors.
             successors @ filter (\<lambda>c. c \<notin> set successors) (find_consumers model outp))
       (outputs nd) []"

text \<open>
  \<^verbatim>\<open>
  def adder_pair(model, node):
      adder_pairs = []
      node_pair = []
      successor_list = model.find_direct_successors(node)
      for successor in successor_list:
          if successor.op_type == "Add":
              node_pair.append(node)
              node_pair.append(successor)
              adder_pairs.append((node_pair))
              node_pair = []
      return adder_pairs
  \<close>
  The state of the loop is the pair \<^verbatim>\<open>(adder_pairs, node_pair)\<close>.
\<close>

definition adder_pair :: "ModelWrapper \<Rightarrow> NodeProto \<Rightarrow> NodeProto list list" where
  "adder_pair model nd =
     (let successor_list = find_direct_successors model nd in
      fst (fold (\<lambda>successor (adder_pairs, node_pair).
                   if op_type successor = ''Add''
                   then (adder_pairs @ [(node_pair @ [nd]) @ [successor]], [])
                   else (adder_pairs, node_pair))
             successor_list ([], [])))"

text \<open>
  The cell that looks for the pair to replace:
  \<^verbatim>\<open>
  for node in add_nodes:
      add_pairs = adder_pair(finn_model, node)
      if len(add_pairs) != 0:
          for i in range(len(add_pairs)):
              substitute_pair = add_pairs[i]
              print(...)
  \<close>
  \<^verbatim>\<open>substitute_pair\<close> is unbound until a pair is found (\<open>None\<close>) and is overwritten by
  every later pair.
\<close>

definition find_substitute_pair :: "ModelWrapper \<Rightarrow> NodeProto list \<Rightarrow> NodeProto list option" where
  "find_substitute_pair model add_nodes =
     fold (\<lambda>nd substitute_pair.
             let add_pairs = adder_pair model nd in
             if length add_pairs \<noteq> 0
             then fold (\<lambda>i _. Some (add_pairs ! i)) [0..<length add_pairs] substitute_pair
             else substitute_pair)
       add_nodes None"

subsection \<open>Python exceptions and loops that may raise\<close>

datatype error = IndexError | KeyError | ValueError | NameError

text \<open>\<^verbatim>\<open>xs[i]\<close> for a non-negative index.\<close>

definition getitem :: "'a list \<Rightarrow> nat \<Rightarrow> error + 'a" where
  "getitem xs i = (if i < length xs then Inr (xs ! i) else Inl IndexError)"

text \<open>A \<^verbatim>\<open>for\<close> loop over a list whose body may raise: the first exception ends it.\<close>

fun for_loop :: "'i list \<Rightarrow> ('i \<Rightarrow> 's \<Rightarrow> error + 's) \<Rightarrow> 's \<Rightarrow> error + 's" where
  "for_loop [] body s = Inr s"
| "for_loop (i # rest) body s =
     (case body i s of Inl e \<Rightarrow> Inl e | Inr s' \<Rightarrow> for_loop rest body s')"

subsection \<open>The fusion cells\<close>

text \<open>
  \<^verbatim>\<open>
  input_list = []
  for i in range(len(substitute_pair)):
      if i == 0:
          for j in range(len(substitute_pair[i].input)):
              if substitute_pair[i].input[j] != substitute_pair[i+1].output[0]:
                  input_list.append(substitute_pair[i].input[j])
      else:
          for j in range(len(substitute_pair[i].input)):
              if substitute_pair[i].input[j] != substitute_pair[i-1].output[0]:
                  input_list.append(substitute_pair[i].input[j])
  \<close>
  \<open>input_list_step\<close> is the body of the inner loops: \<open>i\<close> and \<open>j\<close> are in range by the
  loop bounds, the neighbour \<^verbatim>\<open>substitute_pair[i+1]\<close> and its \<^verbatim>\<open>output[0]\<close> need not
  exist.
\<close>

definition input_list_step ::
  "NodeProto list \<Rightarrow> nat \<Rightarrow> nat \<Rightarrow> string list \<Rightarrow> error + string list" where
  "input_list_step substitute_pair i j input_list =
     (case getitem substitute_pair (if i = 0 then i + 1 else i - 1) of
        Inl e \<Rightarrow> Inl e
      | Inr other \<Rightarrow>
          (case getitem (outputs other) 0 of
             Inl e \<Rightarrow> Inl e
           | Inr t \<Rightarrow>
               if inputs (substitute_pair ! i) ! j \<noteq> t
               then Inr (input_list @ [inputs (substitute_pair ! i) ! j])
               else Inr input_list))"

definition compute_input_list :: "NodeProto list \<Rightarrow> error + string list" where
  "compute_input_list substitute_pair =
     for_loop [0..<length substitute_pair]
       (\<lambda>i. for_loop [0..<length (inputs (substitute_pair ! i))]
               (\<lambda>j. input_list_step substitute_pair i j))
       []"

text \<open>\<^verbatim>\<open>sum_output = substitute_pair[1].output[0]\<close>\<close>

definition sum_output :: "NodeProto list \<Rightarrow> error + string" where
  "sum_output substitute_pair =
     (case getitem substitute_pair 1 of
        Inl e \<Rightarrow> Inl e
      | Inr second \<Rightarrow> getitem (outputs second) 0)"

text \<open>
  \<^verbatim>\<open>
  Sum_node = onnx.helper.make_node('Sum', inputs=input_list, outputs=[sum_output], name="Sum")
  \<close>
\<close>

definition make_Sum_node :: "NodeProto list \<Rightarrow> error + NodeProto" where
  "make_Sum_node substitute_pair =
     (case compute_input_list substitute_pair of
        Inl e \<Rightarrow> Inl e
      | Inr input_list \<Rightarrow>
          (case sum_output substitute_pair of
             Inl e \<Rightarrow> Inl e
           | Inr out \<Rightarrow> Inr (make_node ''Sum'' input_list [out] ''Sum'')))"

text \<open>
  \<^verbatim>\<open>
  def get_node_id(model):
      node_index = {}
      node_ind = 0
      for node in model.graph.node:
          node_index[node.name] = node_ind
          node_ind += 1
      return node_index
  \<close>
\<close>

definition get_node_id :: "ModelWrapper \<Rightarrow> (string \<rightharpoonup> nat)" where
  "get_node_id model =
     fst (fold (\<lambda>nd (node_index, node_ind). (node_index(name nd \<mapsto> node_ind), node_ind + 1))
            (node (graph model)) (Map.empty, 0))"

text \<open>
  \<^verbatim>\<open>graph.node.insert(node_ind, Sum_node)\<close> and \<^verbatim>\<open>graph.node.remove(node)\<close>: inserting at
  an index past the end appends; removing deletes the first element equal to the
  argument and raises \<^verbatim>\<open>ValueError\<close> when there is none.
\<close>

definition list_insert :: "'a list \<Rightarrow> nat \<Rightarrow> 'a \<Rightarrow> 'a list" where
  "list_insert xs i x = take i xs @ x # drop i xs"

definition list_remove :: "'a \<Rightarrow> 'a list \<Rightarrow> error + 'a list" where
  "list_remove x xs = (if x \<in> set xs then Inr (remove1 x xs) else Inl ValueError)"

text \<open>
  \<^verbatim>\<open>
  node_ids = get_node_id(finn_model)
  node_ind = node_ids[substitute_pair[0].name]
  graph.node.insert(node_ind, Sum_node)
  for node in substitute_pair:
      graph.node.remove(node)
  \<close>
  \<open>replace_pair\<close> runs the cells from \<^verbatim>\<open>input_list = []\<close> to here on a wrapped model, the
  graph it was made from and a pair, and returns the mutated graph.
\<close>

definition replace_pair ::
  "ModelWrapper \<Rightarrow> GraphProto \<Rightarrow> NodeProto list \<Rightarrow> error + GraphProto" where
  "replace_pair model g substitute_pair =
     (case make_Sum_node substitute_pair of
        Inl e \<Rightarrow> Inl e
      | Inr Sum_node \<Rightarrow>
          (case getitem substitute_pair 0 of
             Inl e \<Rightarrow> Inl e
           | Inr first \<Rightarrow>
               (case get_node_id model (name first) of
                  None \<Rightarrow> Inl KeyError
                | Some node_ind \<Rightarrow>
                    (case for_loop substitute_pair list_remove
                            (list_insert (node g) node_ind Sum_node) of
                       Inl e \<Rightarrow> Inl e
                     | Inr nodes \<Rightarrow> Inr (g\<lparr>node := nodes\<rparr>)))))"

text \<open>
  The whole manipulation of the notebook, from wrapping the model to the mutated graph:
  the adder nodes are identified, the pair is looked for (\<^verbatim>\<open>NameError\<close> when
  \<^verbatim>\<open>substitute_pair\<close> was never bound), and the pair is replaced.
\<close>

definition fuse_adders :: "GraphProto \<Rightarrow> error + GraphProto" where
  "fuse_adders g =
     (let model = qonnx_make_model g ''simple-model'';
          add_nodes = identify_adder_nodes model
      in case find_substitute_pair model add_nodes of
           None \<Rightarrow> Inl NameError
         | Some substitute_pair \<Rightarrow> replace_pair model g substitute_pair)"

subsection \<open>Node order\<close>

text \<open>
  The notebook asks for the nodes of a graph to be listed in the order of their
  dependencies (\<^verbatim>\<open>Add2\<close> must not be listed before \<^verbatim>\<open>Add1\<close>, whose result it uses): no
  input of a node is an output of the node itself or of a node listed after it.
\<close>

fun topologically_ordered :: "NodeProto list \<Rightarrow> bool" where
  "topologically_ordered [] = True"
| "topologically_ordered (nd # rest) =
     ((\<forall>t \<in> set (inputs nd). \<forall>later \<in> set (nd # rest). t \<notin> set (outputs later))
      \<and> topologically_ordered rest)"

section \<open>Preparing the input of the exported MLP\<close>

text \<open>
  The notebook \<^verbatim>\<open>MLP/2_import_into_finn_and_verify.ipynb\<close> feeds rows of the binarized
  dataset to the exported model:
  \<^verbatim>\<open>
  def inference_with_finn_onnx(current_inp):
      finnonnx_in_tensor_name = model_for_sim.graph.input[0].name
      finnonnx_model_in_shape = model_for_sim.get_tensor_shape(finnonnx_in_tensor_name)
      finnonnx_out_tensor_name = model_for_sim.graph.output[0].name
      # convert the input to numpy for FINN
      current_inp = current_inp.detach().numpy()
      # add padding and re-scale to bipolar
      current_inp = np.pad(current_inp, [(0, 0), (0, 7)])
      current_inp = 2*current_inp-1
      # reshape to expected input (add 1 for batch dimension)
      current_inp = current_inp.reshape(finnonnx_model_in_shape)
      # create the input dictionary
      input_dict = {finnonnx_in_tensor_name : current_inp}
      # run with FINN's execute_onnx
      output_dict = oxe.execute_onnx(model_for_sim, input_dict)
      #get the output tensor
      finn_output = output_dict[finnonnx_out_tensor_name]
      return finn_output
  \<close>
  The argument is a two-dimensional array, a list of rows here. Its elements are the
  dataset's values 0 and 1 stored as \<^verbatim>\<open>float32\<close>; they are integers here, and on 0 and 1
  the \<^verbatim>\<open>float32\<close> computation of \<^verbatim>\<open>2*x-1\<close> is exact and gives the same values.
\<close>

text \<open>
  \<^verbatim>\<open>np.pad(a, [(r0, r1), (c0, c1)])\<close> in its default mode: \<open>r0\<close> rows of zeros before and
  \<open>r1\<close> after the rows, \<open>c0\<close> zeros before and \<open>c1\<close> after the elements of every row.
\<close>

definition np_pad :: "int list list \<Rightarrow> (nat \<times> nat) list \<Rightarrow> error + int list list" where
  "np_pad a pad_width =
     (case pad_width of
        [(r0, r1), (c0, c1)] \<Rightarrow>
          (let rows = map (\<lambda>row. replicate c0 0 @ row @ replicate c1 0) a;
               width = (case a of [] \<Rightarrow> 0 | row # _ \<Rightarrow> length row) + c0 + c1
           in Inr (replicate r0 (replicate width 0) @ rows @ replicate r1 (replicate width 0)))
      | _ \<Rightarrow> Inl ValueError)"

text \<open>
  An array of any shape: the shape and the elements in row-major order.
  \<^verbatim>\<open>a.reshape(shape)\<close> keeps the elements in that order and raises \<^verbatim>\<open>ValueError\<close> unless
  the shape holds exactly as many elements as the array has.
\<close>

record ndarray =
  nd_shape :: "nat list"
  nd_data :: "int list"

definition reshape :: "int list list \<Rightarrow> nat list \<Rightarrow> error + ndarray" where
  "reshape a shp =
     (if length (concat a) = prod_list shp
      then Inr \<lparr>nd_shape = shp, nd_data = concat a\<rparr>
      else Inl ValueError)"

text \<open>
  \<open>finn_onnx_input_dict\<close> is the body of \<^verbatim>\<open>inference_with_finn_onnx\<close> from the padding to
  \<^verbatim>\<open>input_dict\<close>, the dictionary handed to \<^verbatim>\<open>execute_onnx\<close>; the name and the shape of the
  model's input tensor, read from \<^verbatim>\<open>model_for_sim\<close> in the first two lines, are its
  arguments.
\<close>

definition finn_onnx_input_dict ::
  "string \<Rightarrow> nat list \<Rightarrow> int list list \<Rightarrow> error + (string \<rightharpoonup> ndarray)" where
  "finn_onnx_input_dict finnonnx_in_tensor_name finnonnx_model_in_shape current_inp =
     (case np_pad current_inp [(0, 0), (0, 7)] of
        Inl e \<Rightarrow> Inl e
      | Inr padded \<Rightarrow>
          (case reshape (map (map (\<lambda>x. 2 * x - 1)) padded) finnonnx_model_in_shape of
             Inl e \<Rightarrow> Inl e
           | Inr arr \<Rightarrow> Inr [finnonnx_in_tensor_name \<mapsto> arr]))"

section \<open>Executing a graph\<close>

text \<open>
  The notebook runs the graph before and after the fusion with an external runtime
  (\<^verbatim>\<open>rt.InferenceSession(...).run(None, input_dict)\<close>) and compares the outputs. The
  runtime is no part of the sources; the execution below follows the contract of the
  execution adapter: every graph input must be present in the input map with the
  registered shape (\<^verbatim>\<open>ShapeMismatch\<close> otherwise), the nodes are evaluated in graph order,
  each by the numeric backend on the values of its inputs, a failure is an
  \<^verbatim>\<open>ExecutionError\<close> carrying the name of the node, and the result maps the graph's output
  names to their values.
\<close>

text \<open>
  Modelled from the spec: the failures of the execution adapter, which is not among the
  sources: an input that is missing or has the wrong shape, and a failure while a node
  is evaluated, with the name of the node.
\<close>

datatype exec_error = ShapeMismatch | ExecutionError string

text \<open>
  Modelled from the spec: the reference numeric backend is an external collaborator,
  called with the operator type of a node and the values of its inputs; it is a pure
  and deterministic function, and may fail (\<open>None\<close>). The values are of any type \<open>'v\<close>
  that has a shape.
\<close>

record 'v backend =
  run_op :: "string \<Rightarrow> 'v list \<Rightarrow> 'v list option"
  shape_of :: "'v \<Rightarrow> nat list"

text \<open>
  Modelled from the spec: wiring the outputs of a node, part of the execution adapter,
  which is not among the sources. The values are bound to the output names in order.
\<close>

definition bind_outputs :: "string list \<Rightarrow> 'v list \<Rightarrow> (string \<rightharpoonup> 'v) \<Rightarrow> (string \<rightharpoonup> 'v)" where
  "bind_outputs names vals ctx = fold (\<lambda>(t, v) c. c(t \<mapsto> v)) (zip names vals) ctx"

text \<open>
  Modelled from the spec: evaluating one node, part of the execution adapter, which is
  not among the sources. The values of the inputs are read from the context, the
  backend computes the operator, and the results are bound to the outputs; a missing
  input value, a backend failure or a wrong number of results is an \<^verbatim>\<open>ExecutionError\<close> with
  the name of the node.
\<close>

definition run_node ::
  "'v backend \<Rightarrow> NodeProto \<Rightarrow> (string \<rightharpoonup> 'v) \<Rightarrow> exec_error + (string \<rightharpoonup> 'v)" where
  "run_node B nd ctx =
     (case those (map ctx (inputs nd)) of
        None \<Rightarrow> Inl (ExecutionError (name nd))
      | Some args \<Rightarrow>
          (case run_op B (op_type nd) args of
             None \<Rightarrow> Inl (ExecutionError (name nd))
           | Some vals \<Rightarrow>
               if length vals = length (outputs nd)
               then Inr (bind_outputs (outputs nd) vals ctx)
               else Inl (ExecutionError (name nd))))"

text \<open>
  Modelled from the spec: evaluating the nodes in graph order, part of the execution
  adapter, which is not among the sources. The first failure ends the execution.
\<close>

fun run_nodes ::
  "'v backend \<Rightarrow> NodeProto list \<Rightarrow> (string \<rightharpoonup> 'v) \<Rightarrow> exec_error + (string \<rightharpoonup> 'v)" where
  "run_nodes B [] ctx = Inr ctx"
| "run_nodes B (nd # rest) ctx =
     (case run_node B nd ctx of Inl e \<Rightarrow> Inl e | Inr ctx' \<Rightarrow> run_nodes B rest ctx')"

text \<open>
  Modelled from the spec: \<^verbatim>\<open>execute(graph, input_map) -> output_map\<close> of the execution
  adapter, which is not among the sources (the notebook calls an external runtime).
  The graph is not changed.
\<close>

definition execute ::
  "'v backend \<Rightarrow> GraphProto \<Rightarrow> (string \<rightharpoonup> 'v) \<Rightarrow> exec_error + (string \<rightharpoonup> 'v)" where
  "execute B g input_map =
     (if list_all (\<lambda>vi. case input_map (vi_name vi) of
                           None \<Rightarrow> False
                         | Some v \<Rightarrow> shape_of B v = shape vi) (graph_input g)
      then case run_nodes B (node g) input_map of
             Inl e \<Rightarrow> Inl e
           | Inr ctx \<Rightarrow> Inr (ctx |` set (map vi_name (graph_output g)))
      else Inl ShapeMismatch)"

text \<open>The value of one output name in the result of an execution.\<close>

definition output_value ::
  "exec_error + (string \<rightharpoonup> 'v) \<Rightarrow> string \<Rightarrow> exec_error + 'v option" where
  "output_value r nm = (case r of Inl e \<Rightarrow> Inl e | Inr output_map \<Rightarrow> Inr (output_map nm))"

subsection \<open>A backend on integer tensors\<close>

text \<open>
  The notebook's reference function computes the expected output of the example graph
  with \<^verbatim>\<open>np.add\<close>, \<^verbatim>\<open>np.absolute\<close> and \<^verbatim>\<open>np.round\<close>. These operations are taken on tensors
  whose elements are integers (\<open>ndarray\<close>): addition and absolute value element by
  element, rounding as the identity. Tensors of different shapes are not added (no
  broadcasting).
\<close>

definition np_add :: "ndarray \<Rightarrow> ndarray \<Rightarrow> ndarray option" where
  "np_add u v =
     (if nd_shape u = nd_shape v
      then Some \<lparr>nd_shape = nd_shape u, nd_data = map2 (+) (nd_data u) (nd_data v)\<rparr>
      else None)"

definition np_absolute :: "ndarray \<Rightarrow> ndarray" where
  "np_absolute u = u\<lparr>nd_data := map abs (nd_data u)\<rparr>"

definition np_round :: "ndarray \<Rightarrow> ndarray" where
  "np_round u = u"

text \<open>
  \<^verbatim>\<open>
  def expected_output(in1, in2, in3):
      sum1 = np.add(in1, in2)
      sum2 = np.add(sum1, in3)
      abs1 = np.absolute(sum2)
      sum3 = np.add(abs1, abs1)
      return np.round(sum3)
  \<close>
\<close>

definition expected_output :: "ndarray \<Rightarrow> ndarray \<Rightarrow> ndarray \<Rightarrow> ndarray option" where
  "expected_output in1_arg in2_arg in3_arg =
     (case np_add in1_arg in2_arg of
        None \<Rightarrow> None
      | Some sum1 \<Rightarrow>
          (case np_add sum1 in3_arg of
             None \<Rightarrow> None
           | Some sum2 \<Rightarrow>
               (let abs1 = np_absolute sum2
                in case np_add abs1 abs1 of
                     None \<Rightarrow> None
                   | Some sum3 \<Rightarrow> Some (np_round sum3))))"

text \<open>
  \<^verbatim>\<open>Sum\<close>, the operator with more than two inputs, as repeated addition from the left.
\<close>

fun sum_from_left :: "ndarray list \<Rightarrow> ndarray option" where
  "sum_from_left [] = None"
| "sum_from_left [u] = Some u"
| "sum_from_left (u # v # rest) =
     (case np_add u v of None \<Rightarrow> None | Some w \<Rightarrow> sum_from_left (w # rest))"

text \<open>
  Modelled from the spec: an instance of the reference numeric backend, an external
  collaborator that is not among the sources, on integer tensors. \<^verbatim>\<open>Add\<close>, \<^verbatim>\<open>Abs\<close> and
  \<^verbatim>\<open>Round\<close> are the operations of the reference function.
\<close>

definition integer_backend :: "ndarray backend" where
  "integer_backend =
     \<lparr>run_op = (\<lambda>op args.
         if op = ''Add'' then
           (case args of [u, v] \<Rightarrow> map_option (\<lambda>w. [w]) (np_add u v) | _ \<Rightarrow> None)
         else if op = ''Sum'' then map_option (\<lambda>w. [w]) (sum_from_left args)
         else if op = ''Abs'' then (case args of [u] \<Rightarrow> Some [np_absolute u] | _ \<Rightarrow> None)
         else if op = ''Round'' then (case args of [u] \<Rightarrow> Some [np_round u] | _ \<Rightarrow> None)
         else None),
      shape_of = nd_shape\<rparr>"

text \<open>
  What the fusion needs of a backend: \<^verbatim>\<open>Sum\<close> of three values is the \<^verbatim>\<open>Add\<close> of the third
  value and the \<^verbatim>\<open>Add\<close> of the first two, on either side.
\<close>

definition sum_agrees_with_add :: "'v backend \<Rightarrow> bool" where
  "sum_agrees_with_add B =
     (\<forall>x y z s r. run_op B ''Add'' [x, y] = Some [s] \<longrightarrow>
        (run_op B ''Add'' [s, z] = Some [r] \<or> run_op B ''Add'' [z, s] = Some [r]) \<longrightarrow>
        run_op B ''Sum'' [x, y, z] = Some [r])"

subsection \<open>A chain whose second adder reads the connecting tensor twice\<close>

text \<open>
  A graph built like the example graph: the first adder adds the graph inputs, the
  second adds the result to itself, as \<^verbatim>\<open>Add3\<close> does with \<^verbatim>\<open>abs1\<close>, and an \<^verbatim>\<open>Abs\<close> node
  produces the graph output. The connecting tensor \<^verbatim>\<open>sum1\<close> has no consumer but the
  second adder. The input values are the tensors [1] and [0].
\<close>

definition doubling_graph :: GraphProto where
  "doubling_graph =
     make_graph
       [make_node ''Add'' [''in1'', ''in2''] [''sum1''] ''Add1'',
        make_node ''Add'' [''sum1'', ''sum1''] [''sum2''] ''Add2'',
        make_node ''Abs'' [''sum2''] [''out1''] ''Abs'']
       ''doubling_graph''
       [make_tensor_value_info ''in1'' FLOAT [1], make_tensor_value_info ''in2'' FLOAT [1]]
       [make_tensor_value_info ''out1'' FLOAT [1]]
       [make_tensor_value_info ''sum1'' FLOAT [1], make_tensor_value_info ''sum2'' FLOAT [1]]"

definition doubling_inputs :: "string \<rightharpoonup> ndarray" where
  "doubling_inputs =
     [''in1'' \<mapsto> \<lparr>nd_shape = [1], nd_data = [1]\<rparr>,
      ''in2'' \<mapsto> \<lparr>nd_shape = [1], nd_data = [0]\<rparr>]"

text \<open>The node list that the fusion leaves of it.\<close>

definition doubling_graph_fused :: GraphProto where
  "doubling_graph_fused =
     doubling_graph\<lparr>node :=
       [make_node ''Sum'' [''in1'', ''in2''] [''sum2''] ''Sum'',
        make_node ''Abs'' [''sum2''] [''out1''] ''Abs'']\<rparr>"

subsection \<open>Input values for the example graph\<close>

text \<open>
  The notebook draws three random 4x4 tensors and puts them into \<^verbatim>\<open>input_dict\<close>; three
  fixed tensors stand for them here.
  \<^verbatim>\<open>
  input_dict = {}
  input_dict["in1"] = in1_values
  input_dict["in2"] = in2_values
  input_dict["in3"] = in3_values
  ref_output = expected_output(in1_values, in2_values, in3_values)
  \<close>
\<close>

definition in1_values :: ndarray where
  "in1_values = \<lparr>nd_shape = [4, 4],
                  nd_data = [1, 2, - 3, 4, - 5, 0, 1, 2, 3, - 1, - 2, 5, 0, 0, 4, - 4]\<rparr>"

definition in2_values :: ndarray where
  "in2_values = \<lparr>nd_shape = [4, 4],
                  nd_data = [0, - 3, 1, 1, 2, 2, - 5, 3, - 3, 1, 0, 0, 1, - 1, 2, 2]\<rparr>"

definition in3_values :: ndarray where
  "in3_values = \<lparr>nd_shape = [4, 4],
                  nd_data = [2, 0, 0, - 5, 1, - 2, 4, 0, 0, 0, 1, - 5, - 1, 1, - 6, 5]\<rparr>"

definition input_dict :: "string \<rightharpoonup> ndarray" where
  "input_dict = [''in1'' \<mapsto> in1_values, ''in2'' \<mapsto> in2_values, ''in3'' \<mapsto> in3_values]"

definition ref_output :: "ndarray option" where
  "ref_output = expected_output in1_values in2_values in3_values"

section \<open>Properties\<close>

subsection \<open>Loops as list functions\<close>

lemma adder_loop_filter:
  "fold (\<lambda>nd add_nodes. if op_type nd = ''Add'' then add_nodes @ [nd] else add_nodes) ns acc
     = acc @ filter (\<lambda>nd. op_type nd = ''Add'') ns"
  by (induction ns arbitrary: acc) simp_all

lemma adder_pair_loop:
  "fold (\<lambda>successor (adder_pairs, node_pair).
           if op_type successor = ''Add''
           then (adder_pairs @ [(node_pair @ [nd]) @ [successor]], [])
           else (adder_pairs, node_pair)) ss (acc, [])
   = (acc @ map (\<lambda>s. [nd, s]) (filter (\<lambda>s. op_type s = ''Add'') ss), [])"
  by (induction ss arbitrary: acc) simp_all

lemma adder_pair_map_filter:
  "adder_pair model nd =
     map (\<lambda>s. [nd, s]) (filter (\<lambda>s. op_type s = ''Add'') (find_direct_successors model nd))"
  by (simp add: adder_pair_def adder_pair_loop)

lemma for_loop_map: "for_loop (map g xs) body s = for_loop xs (\<lambda>i. body (g i)) s"
  by (induction xs arbitrary: s) (simp_all split: sum.splits)

lemma for_loop_nth:
  "for_loop [0..<length xs] (\<lambda>j. body (xs ! j)) s = for_loop xs body s"
proof -
  have "for_loop xs body s = for_loop (map (\<lambda>j. xs ! j) [0..<length xs]) body s"
    by (simp add: map_nth)
  then show ?thesis by (simp add: for_loop_map)
qed

lemma for_loop_filter:
  "for_loop xs (\<lambda>x acc. if x \<noteq> t then Inr (acc @ [x]) else Inr acc) acc
     = Inr (acc @ filter (\<lambda>x. x \<noteq> t) xs)"
  by (induction xs arbitrary: acc) simp_all

text \<open>
  One inner loop of the input computation: when the neighbour and its first output
  exist, the loop appends the inputs of node \<open>i\<close> that differ from that output.
\<close>

lemma inner_loop:
  assumes "getitem sp (if i = 0 then i + 1 else i - 1) = Inr other"
      and "outputs other = t # ts"
  shows "for_loop [0..<length (inputs (sp ! i))] (\<lambda>j. input_list_step sp i j) acc
           = Inr (acc @ filter (\<lambda>x. x \<noteq> t) (inputs (sp ! i)))"
proof -
  have step: "input_list_step sp i j = (\<lambda>acc. if inputs (sp ! i) ! j \<noteq> t
          then Inr (acc @ [inputs (sp ! i) ! j]) else Inr acc)" for j
    using assms by (auto simp: input_list_step_def getitem_def fun_eq_iff)
  show ?thesis
    unfolding step
    using for_loop_nth [of "inputs (sp ! i)"
        "\<lambda>x acc. if x \<noteq> t then Inr (acc @ [x]) else Inr acc" acc]
    by (simp add: for_loop_filter)
qed

lemma compute_input_list_pair:
  assumes "outputs a = ta # tas" and "outputs b = tb # tbs"
  shows "compute_input_list [a, b]
           = Inr (filter (\<lambda>x. x \<noteq> tb) (inputs a) @ filter (\<lambda>x. x \<noteq> ta) (inputs b))"
proof -
  have up: "[0..<length [a, b]] = [0, 1]" by (simp add: upt_rec)
  have l0: "for_loop [0..<length (inputs a)] (input_list_step [a, b] 0) acc
        = Inr (acc @ filter (\<lambda>x. x \<noteq> tb) (inputs a))" for acc
    using inner_loop [of "[a, b]" 0 b tb tbs acc] assms by (simp add: getitem_def)
  have l1: "for_loop [0..<length (inputs b)] (input_list_step [a, b] (Suc 0)) acc
        = Inr (acc @ filter (\<lambda>x. x \<noteq> ta) (inputs b))" for acc
    using inner_loop [of "[a, b]" "Suc 0" a ta tas acc] assms by (simp add: getitem_def)
  show ?thesis
    unfolding compute_input_list_def up by (simp add: l0 l1)
qed

subsection \<open>Successors and node order\<close>

lemma set_successors_aux:
  "set (fold (\<lambda>outp successors.
               successors @ filter (\<lambda>c. c \<notin> set successors) (find_consumers model outp))
          outs acc)
   = set acc \<union> (\<Union>t \<in> set outs. set (find_consumers model t))"
  by (induction outs arbitrary: acc) auto

lemma set_find_direct_successors:
  "set (find_direct_successors model nd)
     = (\<Union>t \<in> set (outputs nd). set (find_consumers model t))"
  by (simp add: find_direct_successors_def set_successors_aux)

text \<open>In an ordered node list no node reads what one of its consumers writes.\<close>

lemma topo_no_back_edge:
  "topologically_ordered ns \<Longrightarrow> a \<in> set ns \<Longrightarrow> b \<in> set ns \<Longrightarrow>
   t \<in> set (outputs a) \<Longrightarrow> t \<in> set (inputs b) \<Longrightarrow> x \<in> set (inputs a) \<Longrightarrow>
   x \<notin> set (outputs b)"
proof (induction ns)
  case Nil
  then show ?case by simp
next
  case (Cons n rest)
  show ?case
  proof (cases "a = n")
    case True
    with Cons.prems show ?thesis by auto
  next
    case an: False
    show ?thesis
    proof (cases "b = n")
      case True
      with Cons.prems an show ?thesis by auto
    next
      case False
      with Cons an show ?thesis by auto
    qed
  qed
qed

subsection \<open>The example graph\<close>

lemmas example_defs =
  finn_model_def onnx_model_def qonnx_make_model_def simple_graph_def make_graph_def
  Add1_node_def Add2_node_def Add3_node_def Abs_node_def Round_node_def make_node_def

lemmas successor_defs = find_direct_successors_def find_consumers_def

lemma example_pairs:
  "adder_pair finn_model Add1_node = [[Add1_node, Add2_node]]"
  "adder_pair finn_model Add2_node = []"
  "adder_pair finn_model Add3_node = []"
  "adder_pair finn_model Abs_node = [[Abs_node, Add3_node]]"
  by (simp_all add: adder_pair_map_filter successor_defs example_defs)

lemma example_add_nodes:
  "identify_adder_nodes finn_model = [Add1_node, Add2_node, Add3_node]"
  by (simp add: identify_adder_nodes_def example_defs)

lemma example_substitute_pair:
  "find_substitute_pair finn_model (identify_adder_nodes finn_model)
     = Some [Add1_node, Add2_node]"
  by (simp add: find_substitute_pair_def example_add_nodes example_pairs)

lemma example_input_list:
  "compute_input_list [Add1_node, Add2_node] = Inr [''in1'', ''in2'', ''in3'']"
  using compute_input_list_pair [of Add1_node "''sum1''" "[]" Add2_node "''sum2''" "[]"]
  by (simp add: example_defs)

lemma example_sum_output: "sum_output [Add1_node, Add2_node] = Inr ''sum2''"
  by (simp add: sum_output_def getitem_def example_defs)

lemma example_Sum_node:
  "make_Sum_node [Add1_node, Add2_node]
     = Inr (make_node ''Sum'' [''in1'', ''in2'', ''in3''] [''sum2''] ''Sum'')"
  by (simp add: make_Sum_node_def example_input_list example_sum_output)

lemma example_node_id: "get_node_id finn_model (name Add1_node) = Some 0"
  by (simp add: get_node_id_def example_defs)

lemma example_replace_pair:
  "replace_pair finn_model simple_graph [Add1_node, Add2_node]
     = Inr (simple_graph\<lparr>node :=
              [make_node ''Sum'' [''in1'', ''in2'', ''in3''] [''sum2''] ''Sum'',
               Abs_node, Add3_node, Round_node]\<rparr>)"
  apply (simp add: replace_pair_def example_Sum_node example_node_id getitem_def)
  apply (simp add: list_insert_def list_remove_def example_defs)
  done

lemma example_fuse:
  "fuse_adders simple_graph
     = Inr (simple_graph\<lparr>node :=
              [make_node ''Sum'' [''in1'', ''in2'', ''in3''] [''sum2''] ''Sum'',
               Abs_node, Add3_node, Round_node]\<rparr>)"
  using example_substitute_pair example_replace_pair
  by (simp add: fuse_adders_def finn_model_def onnx_model_def)

subsection \<open>The claims about the adder fusion\<close>

text \<open>
  Claim C2. The fusion computes the inputs of the replacement node as the inputs of the
  two matched nodes without the connecting tensor, and keeps the final output tensor:
  for any pair whose nodes have a first output, the input list is the inputs of the
  first node that differ from the second node's first output, followed by the inputs of
  the second node that differ from the first node's first output, and the output is the
  second node's first output. For the chain \<^verbatim>\<open>Add1(in1,in2)->sum1\<close>,
  \<^verbatim>\<open>Add2(sum1,in3)->sum2\<close> the fused node has the input list \<^verbatim>\<open>[in1, in2, in3]\<close>, in that
  order, and the sole output \<^verbatim>\<open>sum2\<close>, the original output of \<^verbatim>\<open>Add2\<close>.
\<close>

theorem fused_node_inputs_and_output:
  "compute_input_list [a\<lparr>outputs := ta # tas\<rparr>, b\<lparr>outputs := tb # tbs\<rparr>]
     = Inr (filter (\<lambda>x. x \<noteq> tb) (inputs a) @ filter (\<lambda>x. x \<noteq> ta) (inputs b))
   \<and> sum_output [a, b\<lparr>outputs := tb # tbs\<rparr>] = Inr tb
   \<and> compute_input_list [Add1_node, Add2_node] = Inr [''in1'', ''in2'', ''in3'']
   \<and> sum_output [Add1_node, Add2_node] = Inr ''sum2''
   \<and> outputs Add2_node = [''sum2'']
   \<and> make_Sum_node [Add1_node, Add2_node]
       = Inr \<lparr>op_type = ''Sum'', inputs = [''in1'', ''in2'', ''in3''],
              outputs = [''sum2''], name = ''Sum''\<rparr>"
proof -
  have "compute_input_list [a\<lparr>outputs := ta # tas\<rparr>, b\<lparr>outputs := tb # tbs\<rparr>]
     = Inr (filter (\<lambda>x. x \<noteq> tb) (inputs a) @ filter (\<lambda>x. x \<noteq> ta) (inputs b))"
    using compute_input_list_pair [of "a\<lparr>outputs := ta # tas\<rparr>" ta tas "b\<lparr>outputs := tb # tbs\<rparr>" tb tbs]
    by simp
  moreover have "sum_output [a, b\<lparr>outputs := tb # tbs\<rparr>] = Inr tb"
    by (simp add: sum_output_def getitem_def)
  moreover have "outputs Add2_node = [''sum2'']"
    by (simp add: Add2_node_def make_node_def)
  ultimately show ?thesis
    using example_input_list example_sum_output example_Sum_node
    by (simp add: make_node_def)
qed

text \<open>
  Claim C3. Fusing the chained pair Add1 and Add2 leaves Add3 untouched. Over the adder
  nodes of the example graph the pair detection finds one pair, (Add1, Add2): Add2 and
  Add3 have no adder successor, and Add3 is in no pair, since its input \<^verbatim>\<open>abs1\<close> is
  produced by the Abs node. The pair to substitute is (Add1, Add2), and the fused graph
  is Sum, Abs, Add3, Round, with Add3 as it was.
\<close>

theorem pair_detection_leaves_Add3:
  "map (adder_pair finn_model) (identify_adder_nodes finn_model)
     = [[[Add1_node, Add2_node]], [], []]
   \<and> find_substitute_pair finn_model (identify_adder_nodes finn_model)
     = Some [Add1_node, Add2_node]
   \<and> inputs Add3_node = [''abs1'', ''abs1'']
   \<and> outputs Abs_node = [''abs1'']
   \<and> fuse_adders simple_graph
     = Inr (simple_graph\<lparr>node :=
              [\<lparr>op_type = ''Sum'', inputs = [''in1'', ''in2'', ''in3''],
                outputs = [''sum2''], name = ''Sum''\<rparr>,
               Abs_node, Add3_node, Round_node]\<rparr>)"
  using example_substitute_pair example_fuse
  by (simp add: example_add_nodes example_pairs) (simp add: example_defs)

text \<open>
  Claim C4. \<^verbatim>\<open>identify_adder_nodes\<close> returns, in graph node order, exactly the nodes whose
  operator type is \<^verbatim>\<open>Add\<close>; on the example graph (Add1, Add2, Abs, Add3, Round) it returns
  the three nodes Add1, Add2, Add3 and no others.
\<close>

theorem identify_adder_nodes_exact:
  "identify_adder_nodes model = filter (\<lambda>nd. op_type nd = ''Add'') (node (graph model))
   \<and> identify_adder_nodes finn_model = [Add1_node, Add2_node, Add3_node]"
proof
  show "identify_adder_nodes model
          = filter (\<lambda>nd. op_type nd = ''Add'') (node (graph model))"
    unfolding identify_adder_nodes_def by (simp add: adder_loop_filter)
  then show "identify_adder_nodes finn_model = [Add1_node, Add2_node, Add3_node]"
    by (simp add: example_add_nodes)
qed

text \<open>
  Claim C8. \<^verbatim>\<open>adder_pair(model, node)\<close> returns one pair \<^verbatim>\<open>[node, s]\<close> for every direct
  successor \<^verbatim>\<open>s\<close> of \<^verbatim>\<open>node\<close> whose operator type is \<^verbatim>\<open>Add\<close>, in the order of the successor
  list, whatever the operator type of \<^verbatim>\<open>node\<close> itself is. For the Abs node, whose
  successor is Add3, it returns the pair (Abs, Add3), whose first element is no adder.
\<close>

theorem adder_pair_ignores_own_type:
  "adder_pair model nd
     = map (\<lambda>s. [nd, s])
         (filter (\<lambda>s. op_type s = ''Add'') (find_direct_successors model nd))
   \<and> op_type Abs_node \<noteq> ''Add''
   \<and> find_direct_successors finn_model Abs_node = [Add3_node]
   \<and> adder_pair finn_model Abs_node = [[Abs_node, Add3_node]]"
  using adder_pair_map_filter [of model nd] example_pairs(4)
  by (simp add: successor_defs example_defs)

text \<open>
  Claim C10. In the computation of the fused inputs, the filter on the first node of the
  pair drops the inputs equal to the second node's first output. When the node list is
  in dependency order, the first node is in the graph and the pair was matched by
  \<^verbatim>\<open>adder_pair\<close>, no input of the first node is an output of the second, so that filter
  drops nothing: the fused node gets all inputs of the first node, followed by the
  inputs of the second node other than the connecting tensor, the first node's first
  output. (The second node needs an output for the comparison to be evaluated.)
\<close>

theorem first_filter_discards_nothing:
  assumes topo: "topologically_ordered (node (graph model))"
      and a: "a \<in> set (node (graph model))"
      and pair: "[a, b] \<in> set (adder_pair model a)"
      and outb: "outputs b \<noteq> []"
  shows "(\<forall>x \<in> set (inputs a). x \<notin> set (outputs b))
       \<and> filter (\<lambda>x. x \<noteq> hd (outputs b)) (inputs a) = inputs a
       \<and> outputs a \<noteq> []
       \<and> compute_input_list [a, b]
           = Inr (inputs a @ filter (\<lambda>x. x \<noteq> hd (outputs a)) (inputs b))"
proof -
  from pair have "b \<in> set (find_direct_successors model a)"
    by (auto simp: adder_pair_map_filter)
  then obtain t where t: "t \<in> set (outputs a)" "b \<in> set (node (graph model))"
      "t \<in> set (inputs b)"
    by (auto simp: set_find_direct_successors find_consumers_def)
  have nb: "x \<notin> set (outputs b)" if "x \<in> set (inputs a)" for x
    using topo_no_back_edge [OF topo a t(2) t(1) t(3) that] .
  from t(1) obtain ta tas where oa: "outputs a = ta # tas"
    by (cases "outputs a") auto
  from outb obtain tb tbs where ob: "outputs b = tb # tbs"
    by (cases "outputs b") auto
  have keep: "filter (\<lambda>x. x \<noteq> hd (outputs b)) (inputs a) = inputs a"
    using nb ob by (auto simp: filter_id_conv)
  have "compute_input_list [a, b]
          = Inr (filter (\<lambda>x. x \<noteq> tb) (inputs a) @ filter (\<lambda>x. x \<noteq> ta) (inputs b))"
    by (rule compute_input_list_pair [OF oa ob])
  with keep oa ob nb show ?thesis by simp
qed

theorem first_filter_discards_nothing_witness:
  "topologically_ordered (node (graph finn_model))
   \<and> Add1_node \<in> set (node (graph finn_model))
   \<and> [Add1_node, Add2_node] \<in> set (adder_pair finn_model Add1_node)
   \<and> outputs Add2_node \<noteq> []
   \<and> filter (\<lambda>x. x \<noteq> hd (outputs Add2_node)) (inputs Add1_node) = [''in1'', ''in2'']
   \<and> compute_input_list [Add1_node, Add2_node]
       = Inr (inputs Add1_node @ filter (\<lambda>x. x \<noteq> hd (outputs Add1_node)) (inputs Add2_node))"
proof -
  have topo: "topologically_ordered (node (graph finn_model))"
    by (simp add: example_defs)
  have a: "Add1_node \<in> set (node (graph finn_model))"
    by (simp add: example_defs)
  have pair: "[Add1_node, Add2_node] \<in> set (adder_pair finn_model Add1_node)"
    by (simp add: example_pairs)
  have outb: "outputs Add2_node \<noteq> []"
    by (simp add: example_defs)
  have ins: "inputs Add1_node = [''in1'', ''in2'']"
    by (simp add: example_defs)
  show ?thesis
    using first_filter_discards_nothing [OF topo a pair outb] topo a pair outb ins
    by simp
qed

subsection \<open>The input of the exported MLP\<close>

lemma input_dict_value:
  assumes "length row = 593"
  shows "finn_onnx_input_dict nm [1, 600] [row]
           = Inr [nm \<mapsto> \<lparr>nd_shape = [1, 600],
                            nd_data = map (\<lambda>x. 2 * x - 1) row @ replicate 7 (- 1)\<rparr>]"
  using assms by (simp add: finn_onnx_input_dict_def np_pad_def reshape_def)

text \<open>
  Claim C9. In \<^verbatim>\<open>inference_with_finn_onnx\<close> the 593 binary values of a row are padded with
  zeros to 600 values before the rescaling \<^verbatim>\<open>2*x-1\<close>, so the seven padded positions reach
  the model as -1 and not as 0: for every row of 593 values in {0, 1}, the array handed
  to the graph has the shape [1, 600], every element of it is -1 or +1, and the elements
  at the indices 593 to 599 are -1.
\<close>

theorem padded_positions_are_minus_one:
  assumes len: "length row = 593"
      and bin: "\<forall>x \<in> set row. x = 0 \<or> x = 1"
  shows "\<exists>arr. finn_onnx_input_dict nm [1, 600] [row] = Inr [nm \<mapsto> arr]
           \<and> nd_shape arr = [1, 600]
           \<and> nd_data arr = map (\<lambda>x. 2 * x - 1) row @ replicate 7 (- 1)
           \<and> length (nd_data arr) = 600
           \<and> (\<forall>i < 600. nd_data arr ! i = - 1 \<or> nd_data arr ! i = 1)
           \<and> (\<forall>i. 593 \<le> i \<and> i < 600 \<longrightarrow> nd_data arr ! i = - 1)"
proof -
  let ?d = "map (\<lambda>x. 2 * x - 1) row @ replicate 7 (- 1)"
  have l: "length ?d = 600" using len by simp
  have vals: "\<forall>v \<in> set ?d. v = - 1 \<or> v = 1"
    using bin by auto
  have v: "?d ! i = - 1 \<or> ?d ! i = 1" if "i < 600" for i
  proof -
    from that l have "?d ! i \<in> set ?d" by (metis nth_mem)
    with vals show ?thesis by blast
  qed
  have p: "?d ! i = - 1" if "593 \<le> i" "i < 600" for i
    using that len by (simp add: nth_append)
  show ?thesis
    unfolding input_dict_value [OF len]
    by (rule exI [of _ "\<lparr>nd_shape = [1, 600], nd_data = ?d\<rparr>"]) (use l v p in simp)
qed

theorem padded_positions_are_minus_one_witness:
  "length (replicate 593 (1::int)) = 593
   \<and> (\<exists>arr. finn_onnx_input_dict ''global_in'' [1, 600] [replicate 593 1]
               = Inr [''global_in'' \<mapsto> arr]
          \<and> nd_data arr = replicate 593 1 @ replicate 7 (- 1))"
proof -
  have len: "length (replicate 593 (1::int)) = 593" by simp
  have bin: "\<forall>x \<in> set (replicate 593 (1::int)). x = 0 \<or> x = 1" by simp
  show ?thesis
    using padded_positions_are_minus_one [OF len bin, of "''global_in''"] by auto
qed

subsection \<open>Execution: frames and agreement of contexts\<close>

lemma run_nodes_append:
  "run_nodes B (xs @ ys) c
     = (case run_nodes B xs c of Inl e \<Rightarrow> Inl e | Inr c' \<Rightarrow> run_nodes B ys c')"
  by (induction xs arbitrary: c) (simp_all split: sum.splits)

lemma bind_outputs_other:
  "k \<notin> set names \<Longrightarrow> bind_outputs names vals c k = c k"
proof -
  have "k \<notin> fst ` set ps \<Longrightarrow> fold (\<lambda>(t, v) c. c(t \<mapsto> v)) ps c k = c k" for ps
    by (induction ps arbitrary: c) auto
  moreover have "k \<notin> set names \<Longrightarrow> k \<notin> fst ` set (zip names vals)"
    by (auto dest: set_zip_leftD)
  ultimately show "k \<notin> set names \<Longrightarrow> bind_outputs names vals c k = c k"
    by (simp add: bind_outputs_def)
qed

lemma bind_outputs_agree:
  assumes "\<forall>k. k \<notin> K \<longrightarrow> c k = d k"
  shows "\<forall>k. k \<notin> K \<longrightarrow> bind_outputs names vals c k = bind_outputs names vals d k"
proof -
  have "(\<forall>k. k \<notin> K \<longrightarrow> c k = d k) \<Longrightarrow>
        (\<forall>k. k \<notin> K \<longrightarrow> fold (\<lambda>(t, v) c. c(t \<mapsto> v)) ps c k
                          = fold (\<lambda>(t, v) c. c(t \<mapsto> v)) ps d k)" for ps
    by (induction ps arbitrary: c d) auto
  with assms show ?thesis by (simp add: bind_outputs_def)
qed

lemma run_node_other:
  "run_node B n c = Inr c' \<Longrightarrow> k \<notin> set (outputs n) \<Longrightarrow> c' k = c k"
  by (auto simp: run_node_def bind_outputs_other split: option.splits if_splits)

lemma run_nodes_other:
  "run_nodes B ns c = Inr c' \<Longrightarrow> \<forall>n \<in> set ns. k \<notin> set (outputs n) \<Longrightarrow> c' k = c k"
proof (induction ns arbitrary: c)
  case Nil
  then show ?case by simp
next
  case (Cons n ns)
  from Cons.prems(1) obtain c1 where 1: "run_node B n c = Inr c1" "run_nodes B ns c1 = Inr c'"
    by (auto split: sum.splits)
  from Cons.IH [OF 1(2)] Cons.prems(2) have "c' k = c1 k" by simp
  moreover from run_node_other [OF 1(1)] Cons.prems(2) have "c1 k = c k" by simp
  ultimately show ?case by simp
qed

lemma run_node_agree:
  assumes agree: "\<forall>k. k \<notin> K \<longrightarrow> c k = d k"
      and reads: "\<forall>k \<in> set (inputs n). k \<notin> K"
      and run: "run_node B n c = Inr c'"
  shows "\<exists>d'. run_node B n d = Inr d' \<and> (\<forall>k. k \<notin> K \<longrightarrow> c' k = d' k)"
proof -
  from agree reads have same: "map d (inputs n) = map c (inputs n)" by simp
  from run obtain args vals where
    r: "those (map c (inputs n)) = Some args" "run_op B (op_type n) args = Some vals"
       "length vals = length (outputs n)" "c' = bind_outputs (outputs n) vals c"
    by (auto simp: run_node_def split: option.splits if_splits)
  have "run_node B n d = Inr (bind_outputs (outputs n) vals d)"
    using r by (simp add: run_node_def same)
  moreover have "\<forall>k. k \<notin> K \<longrightarrow> c' k = bind_outputs (outputs n) vals d k"
    using bind_outputs_agree [OF agree] r(4) by simp
  ultimately show ?thesis by blast
qed

lemma run_nodes_agree:
  assumes "\<forall>k. k \<notin> K \<longrightarrow> c k = d k"
      and "\<forall>n \<in> set ns. \<forall>k \<in> set (inputs n). k \<notin> K"
      and "run_nodes B ns c = Inr c'"
  shows "\<exists>d'. run_nodes B ns d = Inr d' \<and> (\<forall>k. k \<notin> K \<longrightarrow> c' k = d' k)"
  using assms
proof (induction ns arbitrary: c d)
  case Nil
  then show ?case by simp
next
  case (Cons n ns)
  from Cons.prems(3) obtain c1 where 1: "run_node B n c = Inr c1" "run_nodes B ns c1 = Inr c'"
    by (auto split: sum.splits)
  from Cons.prems(2) have rn: "\<forall>k \<in> set (inputs n). k \<notin> K" by simp
  from run_node_agree [OF Cons.prems(1) rn 1(1)] obtain d1 where
    d1: "run_node B n d = Inr d1" "\<forall>k. k \<notin> K \<longrightarrow> c1 k = d1 k" by blast
  from Cons.prems(2) have rns: "\<forall>n \<in> set ns. \<forall>k \<in> set (inputs n). k \<notin> K" by simp
  from Cons.IH [OF d1(2) rns 1(2)] obtain d' where
    "run_nodes B ns d1 = Inr d'" "\<forall>k. k \<notin> K \<longrightarrow> c' k = d' k" by blast
  with d1(1) show ?case by simp
qed

lemma run_binary_node:
  assumes "inputs n = [p, q]" and "outputs n = [r]" and "run_node B n c = Inr c'"
  shows "\<exists>vp vq vr. c p = Some vp \<and> c q = Some vq
           \<and> run_op B (op_type n) [vp, vq] = Some [vr] \<and> c' = c(r \<mapsto> vr)"
  using assms
  by (auto simp: run_node_def bind_outputs_def length_Suc_conv split: option.splits if_splits)

subsection \<open>The fusion of a chained pair\<close>

lemma run_fused_nodes:
  assumes a: "op_type a = ''Add''" "inputs a = [x, y]" "outputs a = [t]"
      and b: "op_type b = ''Add''" "inputs b = [t, z] \<or> inputs b = [z, t]" "outputs b = [s]"
      and S: "op_type S = ''Sum''" "inputs S = [x, y, z]" "outputs S = [s]"
      and ne: "z \<noteq> t" "s \<noteq> t"
      and mid: "\<forall>n \<in> set mid. t \<notin> set (inputs n) \<and> s \<notin> set (inputs n)
                  \<and> t \<notin> set (outputs n) \<and> s \<notin> set (outputs n) \<and> z \<notin> set (outputs n)"
      and post: "\<forall>n \<in> set post. t \<notin> set (inputs n)"
      and backend: "sum_agrees_with_add B"
      and run: "run_nodes B (a # mid @ b # post) c = Inr c'"
  shows "\<exists>d'. run_nodes B (S # mid @ post) c = Inr d' \<and> (\<forall>k. k \<noteq> t \<longrightarrow> c' k = d' k)"
proof -
  from run obtain c2 c3 c4 where
    ra: "run_node B a c = Inr c2" and rm: "run_nodes B mid c2 = Inr c3"
    and rb: "run_node B b c3 = Inr c4" and rp: "run_nodes B post c4 = Inr c'"
    by (auto simp: run_nodes_append split: sum.splits)
  from run_binary_node [OF a(2) a(3) ra] a(1) obtain vx vy vt where
    va: "c x = Some vx" "c y = Some vy" "run_op B ''Add'' [vx, vy] = Some [vt]"
        "c2 = c(t \<mapsto> vt)"
    by auto
  have c3t: "c3 t = Some vt"
    using run_nodes_other [OF rm, of t] mid va(4) by simp
  have c3z: "c3 z = c z"
    using run_nodes_other [OF rm, of z] mid va(4) ne by simp
  obtain vz vs where
    vb: "c z = Some vz"
        "run_op B ''Add'' [vt, vz] = Some [vs] \<or> run_op B ''Add'' [vz, vt] = Some [vs]"
        "c4 = c3(s \<mapsto> vs)"
  proof -
    from b(2) show ?thesis
    proof
      assume i: "inputs b = [t, z]"
      from run_binary_node [OF i b(3) rb] b(1) c3t c3z that show ?thesis by auto
    next
      assume i: "inputs b = [z, t]"
      from run_binary_node [OF i b(3) rb] b(1) c3t c3z that show ?thesis by auto
    qed
  qed
  from backend va(3) vb(2) have sum: "run_op B ''Sum'' [vx, vy, vz] = Some [vs]"
    unfolding sum_agrees_with_add_def by blast
  let ?d2 = "c(s \<mapsto> vs)"
  have rS: "run_node B S c = Inr ?d2"
    using S va(1,2) vb(1) sum by (simp add: run_node_def bind_outputs_def)
  have agree2: "\<forall>k. k \<notin> {t, s} \<longrightarrow> c2 k = ?d2 k"
    using va(4) by simp
  have reads_mid: "\<forall>n \<in> set mid. \<forall>k \<in> set (inputs n). k \<notin> {t, s}"
    using mid by auto
  from run_nodes_agree [OF agree2 reads_mid rm] obtain d3 where
    d3: "run_nodes B mid ?d2 = Inr d3" "\<forall>k. k \<notin> {t, s} \<longrightarrow> c3 k = d3 k" by blast
  have d3s: "d3 s = Some vs"
    using run_nodes_other [OF d3(1), of s] mid by simp
  have agree4: "\<forall>k. k \<notin> {t} \<longrightarrow> c4 k = d3 k"
    using d3(2) d3s vb(3) by auto
  have reads_post: "\<forall>n \<in> set post. \<forall>k \<in> set (inputs n). k \<notin> {t}"
    using post by auto
  from run_nodes_agree [OF agree4 reads_post rp] obtain d' where
    d': "run_nodes B post d3 = Inr d'" "\<forall>k. k \<notin> {t} \<longrightarrow> c' k = d' k" by blast
  have "run_nodes B (S # mid @ post) c = Inr d'"
    using rS d3(1) d'(1) by (simp add: run_nodes_append)
  with d'(2) show ?thesis by auto
qed

lemma node_id_other:
  "nm \<notin> name ` set ns \<Longrightarrow>
   fst (fold (\<lambda>nd (node_index, node_ind). (node_index(name nd \<mapsto> node_ind), Suc node_ind))
          ns (m, k)) nm = m nm"
  by (induction ns arbitrary: m k) simp_all

lemma node_id_last:
  "name a \<notin> name ` set rest \<Longrightarrow>
   fst (fold (\<lambda>nd (node_index, node_ind). (node_index(name nd \<mapsto> node_ind), Suc node_ind))
          (pre @ a # rest) (m, k)) (name a) = Some (k + length pre)"
  by (induction pre arbitrary: m k) (simp_all add: node_id_other)

lemma get_node_id_unique:
  assumes "node (graph model) = pre @ a # rest" and "name a \<notin> name ` set rest"
  shows "get_node_id model (name a) = Some (length pre)"
  using node_id_last [OF assms(2), of pre Map.empty 0]
  by (simp add: get_node_id_def assms(1))

lemma replace_pair_chain:
  assumes nodes: "node g = pre @ a # mid @ b # post"
      and a: "op_type a = ''Add''" "inputs a = [x, y]" "outputs a = [t]"
      and b: "inputs b = [t, z] \<or> inputs b = [z, t]" "outputs b = [s]"
      and ne: "z \<noteq> t" "x \<noteq> s" "y \<noteq> s"
      and names: "distinct (map name (node g))"
  shows "replace_pair (qonnx_make_model g producer) g [a, b]
           = Inr (g\<lparr>node := pre @ make_node ''Sum'' [x, y, z] [s] ''Sum'' # mid @ post\<rparr>)"
proof -
  let ?S = "make_node ''Sum'' [x, y, z] [s] ''Sum''"
  have il: "compute_input_list [a, b] = Inr [x, y, z]"
    using compute_input_list_pair [of a t "[]" b s "[]"] a b ne by auto
  have so: "sum_output [a, b] = Inr s"
    using b by (simp add: sum_output_def getitem_def)
  have ms: "make_Sum_node [a, b] = Inr ?S"
    by (simp add: make_Sum_node_def il so)
  have d: "distinct (map name (pre @ a # mid @ b # post))"
    using names nodes by simp
  then have na: "name a \<notin> name ` set (mid @ b # post)" by auto
  have id: "get_node_id (qonnx_make_model g producer) (name a) = Some (length pre)"
    using get_node_id_unique [of "qonnx_make_model g producer" pre a "mid @ b # post"] nodes na
    by (simp add: qonnx_make_model_def)
  have ins: "list_insert (node g) (length pre) ?S = pre @ ?S # a # mid @ b # post"
    by (simp add: list_insert_def nodes)
  have aS: "a \<noteq> ?S" using a(1) by (auto simp: make_node_def)
  have apre: "a \<notin> set pre" using d by auto
  have bpre: "b \<notin> set pre" "b \<notin> set mid" using d by auto
  have bS: "b \<noteq> ?S"
  proof
    assume "b = ?S"
    then have "inputs b = [x, y, z]" by (simp add: make_node_def)
    with b(1) show False by auto
  qed
  have r1: "list_remove a (pre @ ?S # a # mid @ b # post) = Inr (pre @ ?S # mid @ b # post)"
    using apre aS by (simp add: list_remove_def remove1_append)
  have r2: "list_remove b (pre @ ?S # mid @ b # post) = Inr (pre @ ?S # mid @ post)"
    using bpre bS by (simp add: list_remove_def remove1_append)
  have rm: "for_loop [a, b] list_remove (list_insert (node g) (length pre) ?S)
              = Inr (pre @ ?S # mid @ post)"
    unfolding ins by (simp add: r1 r2)
  show ?thesis
    unfolding replace_pair_def ms
    by (simp add: getitem_def id rm del: for_loop.simps)
qed

lemmas exec_defs = execute_def run_node_def bind_outputs_def integer_backend_def
  np_add_def np_absolute_def np_round_def

lemma map2_add_commute: "map2 (+) xs ys = map2 (+) ys (xs::int list)"
  by (induction xs ys rule: list_induct2') simp_all

lemma integer_backend_sum: "sum_agrees_with_add integer_backend"
  by (auto simp: sum_agrees_with_add_def integer_backend_def np_add_def map2_add_commute
           split: if_splits)

lemma example_ref_output:
  "ref_output = Some \<lparr>nd_shape = [4, 4],
                       nd_data = [6, 2, 4, 0, 4, 0, 0, 10, 0, 0, 2, 0, 0, 0, 0, 6]\<rparr>"
  by (simp add: ref_output_def expected_output_def np_add_def np_absolute_def np_round_def
        in1_values_def in2_values_def in3_values_def)

lemma example_execution:
  "execute integer_backend simple_graph input_dict
     = Inr [''out1'' \<mapsto> \<lparr>nd_shape = [4, 4],
                           nd_data = [6, 2, 4, 0, 4, 0, 0, 10, 0, 0, 2, 0, 0, 0, 0, 6]\<rparr>]"
  by (simp add: exec_defs example_defs input_dict_def in1_values_def in2_values_def
        in3_values_def in1_def in2_def in3_def out1_def make_tensor_value_info_def)

lemmas doubling_defs = doubling_graph_def doubling_graph_fused_def make_graph_def
  make_node_def make_tensor_value_info_def qonnx_make_model_def

lemma doubling_adders:
  "identify_adder_nodes (qonnx_make_model doubling_graph ''simple-model'')
     = [make_node ''Add'' [''in1'', ''in2''] [''sum1''] ''Add1'',
        make_node ''Add'' [''sum1'', ''sum1''] [''sum2''] ''Add2'']"
  by (simp add: identify_adder_nodes_def doubling_defs)

lemma doubling_substitute_pair:
  "find_substitute_pair (qonnx_make_model doubling_graph ''simple-model'')
     (identify_adder_nodes (qonnx_make_model doubling_graph ''simple-model''))
     = Some [make_node ''Add'' [''in1'', ''in2''] [''sum1''] ''Add1'',
             make_node ''Add'' [''sum1'', ''sum1''] [''sum2''] ''Add2'']"
  unfolding doubling_adders
  by (simp add: find_substitute_pair_def adder_pair_map_filter successor_defs doubling_defs)

lemma doubling_fused: "fuse_adders doubling_graph = Inr doubling_graph_fused"
proof -
  have "replace_pair (qonnx_make_model doubling_graph ''simple-model'') doubling_graph
          [make_node ''Add'' [''in1'', ''in2''] [''sum1''] ''Add1'',
           make_node ''Add'' [''sum1'', ''sum1''] [''sum2''] ''Add2'']
        = Inr doubling_graph_fused"
    by (simp add: doubling_defs replace_pair_def make_Sum_node_def compute_input_list_def
        upt_rec input_list_step_def getitem_def sum_output_def get_node_id_def list_insert_def
        list_remove_def)
  then show ?thesis
    using doubling_substitute_pair by (simp add: fuse_adders_def)
qed

lemma doubling_consumers:
  "find_consumers (qonnx_make_model doubling_graph ''simple-model'') ''sum1''
     = [make_node ''Add'' [''sum1'', ''sum1''] [''sum2''] ''Add2'']"
  by (simp add: find_consumers_def doubling_defs)

lemma doubling_output:
  "output_value (execute integer_backend doubling_graph doubling_inputs) ''out1''
     = Inr (Some \<lparr>nd_shape = [1], nd_data = [2]\<rparr>)"
  by (simp add: exec_defs output_value_def doubling_inputs_def doubling_defs)

lemma doubling_fused_output:
  "output_value (execute integer_backend doubling_graph_fused doubling_inputs) ''out1''
     = Inr (Some \<lparr>nd_shape = [1], nd_data = [1]\<rparr>)"
  by (simp add: exec_defs output_value_def doubling_inputs_def doubling_defs)

text \<open>
  Claim C1 as stated fails. In the doubling graph the connecting tensor \<^verbatim>\<open>sum1\<close> has no
  consumer but the second adder and is no graph output, so the precondition of the
  rewrite holds; the fusion drops both reads of \<^verbatim>\<open>sum1\<close> and puts \<^verbatim>\<open>Sum(in1, in2) -> sum2\<close>
  in the place of the two adders. On the inputs [1] and [0] the graph computes [2] and
  the rewritten graph computes [1].
\<close>

theorem fusion_changes_doubling_output:
  "find_consumers (qonnx_make_model doubling_graph ''simple-model'') ''sum1''
     = [make_node ''Add'' [''sum1'', ''sum1''] [''sum2''] ''Add2'']
   \<and> map vi_name (graph_output doubling_graph) = [''out1'']
   \<and> fuse_adders doubling_graph = Inr doubling_graph_fused
   \<and> output_value (execute integer_backend doubling_graph doubling_inputs) ''out1''
     = Inr (Some \<lparr>nd_shape = [1], nd_data = [2]\<rparr>)
   \<and> output_value (execute integer_backend doubling_graph_fused doubling_inputs) ''out1''
     = Inr (Some \<lparr>nd_shape = [1], nd_data = [1]\<rparr>)
   \<and> execute integer_backend doubling_graph_fused doubling_inputs
     \<noteq> execute integer_backend doubling_graph doubling_inputs"
proof -
  have "execute integer_backend doubling_graph_fused doubling_inputs
          \<noteq> execute integer_backend doubling_graph doubling_inputs"
  proof
    assume "execute integer_backend doubling_graph_fused doubling_inputs
              = execute integer_backend doubling_graph doubling_inputs"
    with doubling_output doubling_fused_output show False by simp
  qed
  moreover have "map vi_name (graph_output doubling_graph) = [''out1'']"
    by (simp add: doubling_defs)
  ultimately show ?thesis
    using doubling_consumers doubling_fused doubling_output doubling_fused_output
    by blast
qed

text \<open>
  Claim C1, as amended. The fusion replaces a chained pair of adders, \<open>a\<close> computing
  \<open>t\<close> from \<open>x\<close> and \<open>y\<close> and \<open>b\<close> computing \<open>s\<close> from \<open>t\<close> and \<open>z\<close> (in either order), by
  the node \<^verbatim>\<open>Sum(x, y, z) -> s\<close> at the position of \<open>a\<close>. Let the connecting tensor \<open>t\<close> have no
  consumer but \<open>b\<close> and be no graph output; let \<open>b\<close> read it once (\<open>z\<close> is another tensor)
  and write another tensor (\<open>s\<close> is not \<open>t\<close>); let no node between the two write \<open>z\<close>, \<open>t\<close>
  or \<open>s\<close> or read \<open>s\<close>; let \<open>a\<close> not read \<open>s\<close>; let the node names be distinct; and let the
  backend compute \<^verbatim>\<open>Sum\<close> of three values as the \<^verbatim>\<open>Add\<close> of the third and the \<^verbatim>\<open>Add\<close> of the
  first two. Then the cells of the notebook produce the rewritten graph, and whenever
  the graph executes on an input assignment, the rewritten graph executes on it with
  the same outputs. This covers replacing Add1 and Add2 of the example graph by the
  Sum node.
\<close>

theorem fusion_preserves_outputs:
  assumes nodes: "node g = pre @ a # mid @ b # post"
      and a: "op_type a = ''Add''" "inputs a = [x, y]" "outputs a = [t]"
      and b: "op_type b = ''Add''" "inputs b = [t, z] \<or> inputs b = [z, t]" "outputs b = [s]"
      and ne: "z \<noteq> t" "s \<noteq> t" "x \<noteq> s" "y \<noteq> s"
      and names: "distinct (map name (node g))"
      and mid: "\<forall>n \<in> set mid. t \<notin> set (inputs n) \<and> s \<notin> set (inputs n)
                  \<and> t \<notin> set (outputs n) \<and> s \<notin> set (outputs n) \<and> z \<notin> set (outputs n)"
      and post: "\<forall>n \<in> set post. t \<notin> set (inputs n)"
      and out: "t \<notin> set (map vi_name (graph_output g))"
      and backend: "sum_agrees_with_add B"
      and run: "execute B g input_map = Inr output_map"
  shows "replace_pair (qonnx_make_model g producer) g [a, b]
           = Inr (g\<lparr>node := pre @ make_node ''Sum'' [x, y, z] [s] ''Sum'' # mid @ post\<rparr>)
       \<and> execute B (g\<lparr>node := pre @ make_node ''Sum'' [x, y, z] [s] ''Sum'' # mid @ post\<rparr>)
             input_map = Inr output_map"
proof -
  let ?S = "make_node ''Sum'' [x, y, z] [s] ''Sum''"
  let ?g' = "g\<lparr>node := pre @ ?S # mid @ post\<rparr>"
  have rp: "replace_pair (qonnx_make_model g producer) g [a, b] = Inr ?g'"
    by (rule replace_pair_chain [OF nodes a b(2,3) ne(1,3,4) names])
  from run obtain c' where
    shapes: "list_all (\<lambda>vi. case input_map (vi_name vi) of None \<Rightarrow> False
                           | Some v \<Rightarrow> shape_of B v = shape vi) (graph_input g)"
    and rn: "run_nodes B (node g) input_map = Inr c'"
    and om: "output_map = c' |` set (map vi_name (graph_output g))"
    by (auto simp: execute_def split: if_splits sum.splits)
  from rn nodes obtain c1 where
    r1: "run_nodes B pre input_map = Inr c1" "run_nodes B (a # mid @ b # post) c1 = Inr c'"
    by (auto simp: run_nodes_append split: sum.splits)
  have S: "op_type ?S = ''Sum''" "inputs ?S = [x, y, z]" "outputs ?S = [s]"
    by (simp_all add: make_node_def)
  from run_fused_nodes [OF a b S ne(1,2) mid post backend r1(2)] obtain d' where
    d': "run_nodes B (?S # mid @ post) c1 = Inr d'" "\<forall>k. k \<noteq> t \<longrightarrow> c' k = d' k"
    by blast
  have rn': "run_nodes B (node ?g') input_map = Inr d'"
    using r1(1) d'(1) by (simp add: run_nodes_append)
  have "d' |` set (map vi_name (graph_output g)) = c' |` set (map vi_name (graph_output g))"
    using d'(2) out by (auto simp: restrict_map_def fun_eq_iff)
  then have "execute B ?g' input_map = Inr output_map"
    using shapes rn' om by (simp add: execute_def)
  with rp show ?thesis by simp
qed

theorem fusion_preserves_outputs_witness:
  "sum_agrees_with_add integer_backend
   \<and> output_value (execute integer_backend simple_graph input_dict) ''out1'' = Inr ref_output
   \<and> fuse_adders simple_graph
       = replace_pair (qonnx_make_model simple_graph ''simple-model'') simple_graph
           [Add1_node, Add2_node]
   \<and> replace_pair (qonnx_make_model simple_graph ''simple-model'') simple_graph
        [Add1_node, Add2_node]
       = Inr (simple_graph\<lparr>node :=
                [make_node ''Sum'' [''in1'', ''in2'', ''in3''] [''sum2''] ''Sum'',
                 Abs_node, Add3_node, Round_node]\<rparr>)
   \<and> execute integer_backend
        (simple_graph\<lparr>node :=
           [make_node ''Sum'' [''in1'', ''in2'', ''in3''] [''sum2''] ''Sum'',
            Abs_node, Add3_node, Round_node]\<rparr>) input_dict
       = execute integer_backend simple_graph input_dict
   \<and> output_value
        (execute integer_backend
           (simple_graph\<lparr>node :=
              [make_node ''Sum'' [''in1'', ''in2'', ''in3''] [''sum2''] ''Sum'',
               Abs_node, Add3_node, Round_node]\<rparr>) input_dict) ''out1''
       = Inr ref_output"
proof -
  have nodes: "node simple_graph
      = [] @ Add1_node # [] @ Add2_node # [Abs_node, Add3_node, Round_node]"
    by (simp add: example_defs)
  have a: "op_type Add1_node = ''Add''" "inputs Add1_node = [''in1'', ''in2'']"
      "outputs Add1_node = [''sum1'']"
    by (simp_all add: example_defs)
  have b: "op_type Add2_node = ''Add''"
      "inputs Add2_node = [''sum1'', ''in3''] \<or> inputs Add2_node = [''in3'', ''sum1'']"
      "outputs Add2_node = [''sum2'']"
    by (simp_all add: example_defs)
  have ne: "''in3'' \<noteq> ''sum1''" "''sum2'' \<noteq> ''sum1''" "''in1'' \<noteq> ''sum2''"
      "''in2'' \<noteq> ''sum2''"
    by simp_all
  have names: "distinct (map name (node simple_graph))"
    by (simp add: example_defs)
  have mid: "\<forall>n \<in> set []. ''sum1'' \<notin> set (inputs n) \<and> ''sum2'' \<notin> set (inputs n)
      \<and> ''sum1'' \<notin> set (outputs n) \<and> ''sum2'' \<notin> set (outputs n) \<and> ''in3'' \<notin> set (outputs n)"
    by simp
  have post: "\<forall>n \<in> set [Abs_node, Add3_node, Round_node]. ''sum1'' \<notin> set (inputs n)"
    by (simp add: example_defs)
  have out: "''sum1'' \<notin> set (map vi_name (graph_output simple_graph))"
    by (simp add: example_defs out1_def make_tensor_value_info_def)
  from fusion_preserves_outputs [OF nodes a b ne names mid post out integer_backend_sum
      example_execution, of "''simple-model''"]
  show ?thesis
    using example_execution integer_backend_sum example_fuse example_ref_output
    by (simp add: output_value_def)
qed

end
